theory Spec2Isabelle
  imports Main "HOL-Library.AList"
begin

chapter \<open>Payment strategy adapters\<close>

section \<open>Requests, payloads and failures\<close>

text \<open>
  The failures the payment strategies raise themselves, and \<open>Failure\<close> for whatever a
  collaborator (the payment integration service, a vendor SDK) throws or rejects with.
\<close>

datatype payment_error =
    PaymentArgumentInvalidError "string list"
  | PaymentMethodInvalidError
  | OrderFinalizationNotRequiredError
  | TypeError
  | Failure string

datatype SquareIntent = CHARGE | STORE

text \<open>
  \<open>OrderRequestBody\<close>, \<open>OrderPaymentRequestBody\<close> and the payment instrument, as the
  JavaScript objects they are: a property that may be missing is an option.
  Only the properties the strategy reads or copies are kept.
\<close>

record payment_data =
  instrumentId :: "string option"
  shouldSaveInstrument :: "bool option"
  shouldSetAsDefaultInstrument :: "bool option"

record order_payment =
  methodId :: string
  gatewayId :: "string option"
  paymentData :: "payment_data option"

record order_request =
  payment :: "order_payment option"
  useStoreCredit :: "bool option"

text \<open>
  The token of a \<open>credit_card_token\<close> payload: the nonce as the vendor returned it, or
  \<open>JSON.stringify\<close> of an object whose members are the listed strings, in this order.
\<close>

datatype card_token = Nonce string | Stringified "(string \<times> string) list"

text \<open>
  \<open>formattedPayload\<close>: \<open>credit_card_token\<close> with its token, or \<open>bigpay_token\<close> with its
  token and the \<open>three_d_secure\<close> token when there is one; both with
  \<open>vault_payment_instrument\<close> and \<open>set_as_default_stored_instrument\<close>.
\<close>

datatype formatted_payload =
    Credit_card_token card_token bool bool
  | Bigpay_token "string option" "string option" bool bool

text \<open>
  What the strategy asks of its collaborators, in the order it asks:
  \<open>SubmitPayment\<close> carries \<open>methodId\<close>, \<open>gatewayId\<close> (the spread \<open>...payment\<close>) and the
  new \<open>paymentData\<close>; \<open>LoadPaymentMethod\<close> carries the method id and
  \<open>params.method\<close>, \<open>params.bigpayToken\<close>.
\<close>

datatype call =
    SubmitOrder
  | Tokenize
  | VerifyBuyer string SquareIntent
  | LoadPaymentMethod string string "string option"
  | SubmitPayment string "string option" formatted_payload

record SquareInitializationData =
  cardId :: "string option"

record PaymentMethod =
  initializationData :: "SquareInitializationData option"

text \<open>
  The collaborators of \<open>SquareV2PaymentStrategy\<close>, none of them under src: the two type
  guards of the payment integration API, the payment integration service and the
  payment processor that wraps the vendor SDK. Each answer may depend on the calls
  made so far. \<open>None\<close> of \<open>submitOrder\<close> and \<open>submitPayment\<close> is a promise that
  resolves; \<open>Inl\<close> is a rejection (or, for the synchronous \<open>getStoreConfigOrThrow\<close> and
  \<open>getPaymentMethodOrThrow\<close>, an exception). \<open>loadPaymentMethod\<close> resolves with a state,
  given as its \<open>getPaymentMethodOrThrow\<close>; \<open>getStoreConfigOrThrow\<close> gives
  \<open>checkoutSettings.features\<close>.
\<close>

record square_env =
  isHostedInstrumentLike :: "payment_data option \<Rightarrow> bool"
  isVaultedInstrument :: "payment_data \<Rightarrow> bool"
  submitOrder :: "call list \<Rightarrow> payment_error option"
  tokenize :: "call list \<Rightarrow> payment_error + string"
  verifyBuyer :: "call list \<Rightarrow> string \<Rightarrow> SquareIntent \<Rightarrow> payment_error + string"
  loadPaymentMethod ::
    "call list \<Rightarrow> string \<Rightarrow> string \<Rightarrow> string option \<Rightarrow>
     payment_error + (string \<Rightarrow> payment_error + PaymentMethod)"
  submitPayment ::
    "call list \<Rightarrow> string \<Rightarrow> string option \<Rightarrow> formatted_payload \<Rightarrow> payment_error option"
  getStoreConfigOrThrow :: "call list \<Rightarrow> payment_error + (string \<Rightarrow> bool)"

section \<open>Asynchronous steps over the list of calls made\<close>

text \<open>
  An \<open>async\<close> function is run to its end: from the calls made so far it gives
  the value it resolves with (\<open>Inr\<close>) or the failure it rejects with (\<open>Inl\<close>), and
  the calls made by then. \<open>await_then\<close> is \<open>await\<close>: a rejection ends the function.
\<close>

type_synonym ('c, 'a) eff = "'c list \<Rightarrow> (payment_error + 'a) \<times> 'c list"

definition resolve :: "'a \<Rightarrow> ('c, 'a) eff" where
  "resolve v = (\<lambda>h. (Inr v, h))"

definition reject :: "payment_error \<Rightarrow> ('c, 'a) eff" where
  "reject e = (\<lambda>h. (Inl e, h))"

definition await_then :: "('c, 'a) eff \<Rightarrow> ('a \<Rightarrow> ('c, 'b) eff) \<Rightarrow> ('c, 'b) eff" where
  "await_then m f = (\<lambda>h. case m h of (Inl e, h') \<Rightarrow> (Inl e, h') | (Inr v, h') \<Rightarrow> f v h')"

definition settle :: "payment_error option \<Rightarrow> payment_error + unit" where
  "settle r = (case r of None \<Rightarrow> Inr () | Some e \<Rightarrow> Inl e)"

definition do_submitOrder :: "square_env \<Rightarrow> (call, unit) eff" where
  "do_submitOrder env = (\<lambda>h. (settle (submitOrder env h), h @ [SubmitOrder]))"

definition do_tokenize :: "square_env \<Rightarrow> (call, string) eff" where
  "do_tokenize env = (\<lambda>h. (tokenize env h, h @ [Tokenize]))"

definition do_verifyBuyer :: "square_env \<Rightarrow> string \<Rightarrow> SquareIntent \<Rightarrow> (call, string) eff" where
  "do_verifyBuyer env t i = (\<lambda>h. (verifyBuyer env h t i, h @ [VerifyBuyer t i]))"

definition do_loadPaymentMethod ::
  "square_env \<Rightarrow> string \<Rightarrow> string \<Rightarrow> string option \<Rightarrow>
   (call, string \<Rightarrow> payment_error + PaymentMethod) eff" where
  "do_loadPaymentMethod env m pm tok =
     (\<lambda>h. (loadPaymentMethod env h m pm tok, h @ [LoadPaymentMethod m pm tok]))"

definition do_submitPayment ::
  "square_env \<Rightarrow> string \<Rightarrow> string option \<Rightarrow> formatted_payload \<Rightarrow> (call, unit) eff" where
  "do_submitPayment env m g p =
     (\<lambda>h. (settle (submitPayment env h m g p), h @ [SubmitPayment m g p]))"

section \<open>SquareV2PaymentStrategy\<close>

text \<open>JavaScript truthiness of an optional boolean and of an optional string.\<close>

definition truthy_bool :: "bool option \<Rightarrow> bool" where
  "truthy_bool b = (b = Some True)"

definition truthy_string :: "string option \<Rightarrow> bool" where
  "truthy_string s = (case s of None \<Rightarrow> False | Some t \<Rightarrow> t \<noteq> [])"

text \<open>
  \<open>_shouldVerify\<close>: reads the feature flag from the store configuration; the read is
  synchronous and makes no call, and \<open>getStoreConfigOrThrow\<close> may throw.
\<close>

definition add_3ds_support :: string where
  "add_3ds_support = ''PROJECT-3828.add_3ds_support_on_squarev2''"

definition shouldVerify :: "square_env \<Rightarrow> (call, bool) eff" where
  "shouldVerify env =
     (\<lambda>h. (case getStoreConfigOrThrow env h of
              Inl e \<Rightarrow> Inl e
            | Inr features \<Rightarrow> Inr (features add_3ds_support),
            h))"

text \<open>
  \<open>_getSquareCardIdOrThrow(methodId, instrumentId)\<close>;
  \<open>cardId_of\<close> is \<open>const { cardId } = initializationData || {}\<close>.
\<close>

definition cardId_of :: "PaymentMethod \<Rightarrow> string option" where
  "cardId_of pm = (case initializationData pm of None \<Rightarrow> None | Some d \<Rightarrow> cardId d)"

definition getSquareCardIdOrThrow ::
  "square_env \<Rightarrow> string \<Rightarrow> string option \<Rightarrow> (call, string) eff" where
  "getSquareCardIdOrThrow env m inst =
     await_then (do_loadPaymentMethod env m m inst) (\<lambda>getPaymentMethodOrThrow.
       case getPaymentMethodOrThrow m of
         Inl e \<Rightarrow> reject e
       | Inr pm \<Rightarrow>
           (case cardId_of pm of
              None \<Rightarrow> reject (PaymentArgumentInvalidError [''cardId''])
            | Some c \<Rightarrow>
                if c = [] then reject (PaymentArgumentInvalidError [''cardId''])
                else resolve c))"

text \<open>
  \<open>_processWithVaultedInstrument(payment, shouldSaveInstrument = false,
  shouldSetAsDefaultInstrument = false)\<close>: a default takes the place of an
  \<open>undefined\<close> argument only. The verification token enters the payload when it is truthy.
\<close>

definition default_false :: "bool option \<Rightarrow> bool" where
  "default_false b = (case b of None \<Rightarrow> False | Some v \<Rightarrow> v)"

definition processWithVaultedInstrument ::
  "square_env \<Rightarrow> order_payment \<Rightarrow> bool option \<Rightarrow> bool option \<Rightarrow> (call, unit) eff" where
  "processWithVaultedInstrument env pay save dflt =
     (case paymentData pay of
        None \<Rightarrow> resolve ()
      | Some pd \<Rightarrow>
          if \<not> isVaultedInstrument env pd then resolve ()
          else
            await_then (shouldVerify env) (\<lambda>verify.
            await_then
              (if verify then
                 await_then (getSquareCardIdOrThrow env (methodId pay) (instrumentId pd)) (\<lambda>card.
                 await_then (do_verifyBuyer env card CHARGE) (\<lambda>t. resolve (Some t)))
               else resolve None) (\<lambda>verificationToken.
            do_submitPayment env (methodId pay) (gatewayId pay)
              (Bigpay_token (instrumentId pd)
                 (if truthy_string verificationToken then verificationToken else None)
                 (default_false save) (default_false dflt)))))"

text \<open>
  \<open>execute({ payment })\<close>. The destructuring of \<open>paymentData\<close> after a type guard that
  accepts \<open>undefined\<close> is a \<open>TypeError\<close>; the guard of the payment integration API is a
  parameter here, so the case stays in the model.
\<close>

definition SquareV2PaymentStrategy_execute :: "square_env \<Rightarrow> order_request \<Rightarrow> (call, unit) eff" where
  "SquareV2PaymentStrategy_execute env req =
     (case payment req of
        None \<Rightarrow> reject (PaymentArgumentInvalidError [''payment''])
      | Some pay \<Rightarrow>
          (case (if isHostedInstrumentLike env (paymentData pay)
                 then (case paymentData pay of
                         None \<Rightarrow> Inl TypeError
                       | Some pd \<Rightarrow> Inr (shouldSaveInstrument pd, shouldSetAsDefaultInstrument pd))
                 else Inr (Some False, Some False)) of
             Inl e \<Rightarrow> reject e
           | Inr (save, dflt) \<Rightarrow>
               await_then (do_submitOrder env) (\<lambda>_.
                 if (case paymentData pay of None \<Rightarrow> False | Some pd \<Rightarrow> isVaultedInstrument env pd)
                 then processWithVaultedInstrument env pay save dflt
                 else
                   await_then (do_tokenize env) (\<lambda>nonce.
                   await_then (shouldVerify env) (\<lambda>verify.
                   await_then
                     (if verify then
                        (if truthy_bool save then
                           await_then (do_tokenize env) (\<lambda>storeCardNonce.
                           await_then (do_verifyBuyer env nonce CHARGE) (\<lambda>tok.
                           await_then (do_verifyBuyer env storeCardNonce STORE) (\<lambda>storeTok.
                           resolve (Stringified
                             [(''nonce'', nonce), (''store_card_nonce'', storeCardNonce),
                              (''token'', tok), (''store_card_token'', storeTok)]))))
                         else
                           await_then (do_verifyBuyer env nonce CHARGE) (\<lambda>tok.
                           resolve (Stringified [(''nonce'', nonce), (''token'', tok)])))
                      else resolve (Nonce nonce)) (\<lambda>token.
                   do_submitPayment env (methodId pay) (gatewayId pay)
                     (Credit_card_token token (truthy_bool save) (truthy_bool dflt))))))))"

text \<open>\<open>finalize()\<close>: \<open>Promise.reject(new OrderFinalizationNotRequiredError())\<close>.\<close>

definition SquareV2PaymentStrategy_finalize :: "(call, unit) eff" where
  "SquareV2PaymentStrategy_finalize = reject OrderFinalizationNotRequiredError"


section \<open>WepayPaymentStrategy\<close>

text \<open>
  The order request of the credit-card strategies, with the members that lodash
  \<open>merge\<close> walks through; what else an object holds is kept as its other properties.
\<close>

record risk_extraData =
  riskToken :: "string option"
  extraData_others :: "(string \<times> string) list"

record card_paymentData =
  extraData :: "risk_extraData option"
  paymentData_others :: "(string \<times> string) list"

record card_payment =
  card_methodId :: "string option"
  card_paymentData :: "card_paymentData option"

record card_order_request =
  card_payment :: "card_payment option"
  card_useStoreCredit :: "bool option"

datatype card_call =
    GetRiskToken
  | CardSubmitOrder "bool option"
  | CardSubmitPayment card_payment

text \<open>
  \<open>merge({}, payload, { payment: { paymentData: { extraData: { riskToken: token } } } })\<close>:
  a deep merge into a fresh object. Every object on the path exists in the result; an
  \<open>undefined\<close> token leaves the \<open>riskToken\<close> of the payload as it is.
\<close>

definition merge_riskToken :: "string option \<Rightarrow> card_order_request \<Rightarrow> card_order_request" where
  "merge_riskToken token request =
     (let pay = (case card_payment request of
                   None \<Rightarrow> \<lparr>card_methodId = None, card_paymentData = None\<rparr>
                 | Some p \<Rightarrow> p);
          pd = (case card_paymentData pay of
                  None \<Rightarrow> \<lparr>extraData = None, paymentData_others = []\<rparr>
                | Some d \<Rightarrow> d);
          ex = (case extraData pd of
                  None \<Rightarrow> \<lparr>riskToken = None, extraData_others = []\<rparr>
                | Some x \<Rightarrow> x);
          ex' = ex\<lparr>riskToken := (case token of None \<Rightarrow> riskToken ex | Some t \<Rightarrow> Some t)\<rparr>
      in request\<lparr>card_payment := Some (pay\<lparr>card_paymentData := Some (pd\<lparr>extraData := Some ex'\<rparr>)\<rparr>)\<rparr>)"

text \<open>
  The collaborators of \<open>WepayPaymentStrategy\<close>: the risk client that wraps the vendor's
  risk SDK, and \<open>execute\<close> of the class it extends, \<open>CreditCardPaymentStrategy\<close>, which
  is not under src and is a parameter.
\<close>

record wepay_env =
  getRiskToken :: "card_call list \<Rightarrow> payment_error + string option"
  super_execute :: "card_order_request \<Rightarrow> (card_call, unit) eff"

text \<open>
  \<open>execute(payload, options)\<close>: the risk token is asked for first, then merged into the
  payload, then the inherited \<open>execute\<close> runs on the merged payload. An exception of
  \<open>getRiskToken\<close> leaves \<open>execute\<close> as it is thrown.
\<close>

definition WepayPaymentStrategy_execute :: "wepay_env \<Rightarrow> card_order_request \<Rightarrow> (card_call, unit) eff" where
  "WepayPaymentStrategy_execute env request =
     (\<lambda>h. case getRiskToken env h of
            Inl e \<Rightarrow> (Inl e, h @ [GetRiskToken])
          | Inr token \<Rightarrow> super_execute env (merge_riskToken token request) (h @ [GetRiskToken]))"

text \<open>
  Modelled from the spec: \<open>CreditCardPaymentStrategy\<close>, the class \<open>WepayPaymentStrategy\<close>
  extends, is not under src. The spec's contract for every strategy: \<open>execute\<close>
  validates that a payment payload is present (missing payment data is an argument
  error) and submits to the order service; \<open>finalize\<close> always fails, order
  finalization not being required.
\<close>

definition CreditCardPaymentStrategy_execute :: "card_order_request \<Rightarrow> (card_call, unit) eff" where
  "CreditCardPaymentStrategy_execute request =
     (case card_payment request of
        None \<Rightarrow> reject (PaymentArgumentInvalidError [''payment''])
      | Some p \<Rightarrow>
          (\<lambda>h. (Inr (), h @ [CardSubmitOrder (card_useStoreCredit request), CardSubmitPayment p])))"

definition CreditCardPaymentStrategy_finalize :: "(card_call, unit) eff" where
  "CreditCardPaymentStrategy_finalize = reject OrderFinalizationNotRequiredError"

text \<open>\<open>WepayPaymentStrategy\<close> does not override \<open>finalize\<close>.\<close>

definition WepayPaymentStrategy_finalize :: "(card_call, unit) eff" where
  "WepayPaymentStrategy_finalize = CreditCardPaymentStrategy_finalize"



section \<open>Example collaborators\<close>

text \<open>
  A store with 3-D-Secure switched on whose payment method resolves no card id, and
  the same store resolving one. The guards are the ones a vaulted instrument (an
  instrument id) and a hosted instrument (an object) pass.
\<close>

definition example_square_env :: "string option \<Rightarrow> square_env" where
  "example_square_env resolved =
     \<lparr>isHostedInstrumentLike = (\<lambda>pd. pd \<noteq> None),
      isVaultedInstrument = (\<lambda>pd. truthy_string (instrumentId pd)),
      submitOrder = (\<lambda>h. None),
      tokenize = (\<lambda>h. Inr ''cnon:card-nonce''),
      verifyBuyer = (\<lambda>h t i. Inr ''verf:token''),
      loadPaymentMethod =
        (\<lambda>h m pm tok. Inr (\<lambda>m'. Inr \<lparr>initializationData = Some \<lparr>cardId = resolved\<rparr>\<rparr>)),
      submitPayment = (\<lambda>h m g p. None),
      getStoreConfigOrThrow = (\<lambda>h. Inr (\<lambda>f. f = add_3ds_support))\<rparr>"

definition vaulted_data :: payment_data where
  "vaulted_data =
     \<lparr>instrumentId = Some ''instrument-1'', shouldSaveInstrument = None,
      shouldSetAsDefaultInstrument = None\<rparr>"

definition vaulted_payment :: order_payment where
  "vaulted_payment =
     \<lparr>methodId = ''squarev2'', gatewayId = None, paymentData = Some vaulted_data\<rparr>"

definition vaulted_request :: order_request where
  "vaulted_request = \<lparr>payment = Some vaulted_payment, useStoreCredit = None\<rparr>"

definition card_data :: payment_data where
  "card_data =
     \<lparr>instrumentId = None, shouldSaveInstrument = Some True,
      shouldSetAsDefaultInstrument = Some False\<rparr>"

definition card_request :: order_request where
  "card_request =
     \<lparr>payment = Some \<lparr>methodId = ''squarev2'', gatewayId = None, paymentData = Some card_data\<rparr>,
      useStoreCredit = None\<rparr>"

definition example_wepay_env :: wepay_env where
  "example_wepay_env =
     \<lparr>getRiskToken = (\<lambda>h. Inr (Some ''risk-token'')),
      super_execute = CreditCardPaymentStrategy_execute\<rparr>"

chapter \<open>Embedded checkout\<close>

section \<open>Failures and promises\<close>

datatype NotEmbeddableErrorType = MissingContainer | MissingContent | UnknownError

text \<open>
  The errors of the embedded-checkout bundle with their messages; \<open>JsError\<close> is a plain
  \<open>Error\<close>, \<open>JsTypeError\<close> and \<open>NotFoundError\<close> are raised by the runtime (a property of
  \<open>undefined\<close>; \<open>removeChild\<close> of a node that is not a child), and \<open>Undefined\<close> is the reason
  of \<open>Promise.reject()\<close>.
\<close>

datatype embed_error =
    InvalidArgumentError string
  | NotEmbeddableError string NotEmbeddableErrorType
  | InvalidLoginTokenError string
  | JsError string
  | JsTypeError
  | NotFoundError
  | Undefined

text \<open>
  What becomes of a call that returns a promise: it throws before it returns one, or
  the promise resolves, rejects, or never settles.
\<close>

datatype 'a outcome = Thrown embed_error | Resolved 'a | Rejected embed_error | Pending

text \<open>
  \<open>p.then(f)\<close> and \<open>p.catch(f)\<close> over a state: the callback runs when \<open>p\<close> resolves
  (rejects); what it throws rejects the new promise. When the expression that should
  give \<open>p\<close> throws, nothing is chained.
\<close>

definition then_do ::
  "'a outcome \<times> 's \<Rightarrow> ('a \<Rightarrow> 's \<Rightarrow> 'b outcome \<times> 's) \<Rightarrow> 'b outcome \<times> 's" where
  "then_do p f =
     (case p of
        (Resolved v, s) \<Rightarrow>
          (case f v s of (Thrown e, s') \<Rightarrow> (Rejected e, s') | r \<Rightarrow> r)
      | (Rejected e, s) \<Rightarrow> (Rejected e, s)
      | (Pending, s) \<Rightarrow> (Pending, s)
      | (Thrown e, s) \<Rightarrow> (Thrown e, s))"

definition catch_do ::
  "'a outcome \<times> 's \<Rightarrow> (embed_error \<Rightarrow> 's \<Rightarrow> 'a outcome \<times> 's) \<Rightarrow> 'a outcome \<times> 's" where
  "catch_do p f =
     (case p of
        (Rejected e, s) \<Rightarrow>
          (case f e s of (Thrown e', s') \<Rightarrow> (Rejected e', s') | r \<Rightarrow> r)
      | (Resolved v, s) \<Rightarrow> (Resolved v, s)
      | (Pending, s) \<Rightarrow> (Pending, s)
      | (Thrown e, s) \<Rightarrow> (Thrown e, s))"

text \<open>The constructors, with the defaults they give a missing message or subtype.\<close>

definition new_InvalidArgumentError :: "string option \<Rightarrow> embed_error" where
  "new_InvalidArgumentError m =
     InvalidArgumentError
       (case m of None \<Rightarrow> ''Invalid arguments have been provided.''
        | Some t \<Rightarrow> if t = [] then ''Invalid arguments have been provided.'' else t)"

definition new_NotEmbeddableError ::
  "string option \<Rightarrow> NotEmbeddableErrorType option \<Rightarrow> embed_error" where
  "new_NotEmbeddableError m st =
     NotEmbeddableError
       (case m of None \<Rightarrow> ''Unable to embed the checkout form.''
        | Some t \<Rightarrow> if t = [] then ''Unable to embed the checkout form.'' else t)
       (case st of None \<Rightarrow> UnknownError | Some k \<Rightarrow> k)"

fun error_message :: "embed_error \<Rightarrow> string option" where
  "error_message (InvalidArgumentError m) = Some m"
| "error_message (NotEmbeddableError m k) = Some m"
| "error_message (InvalidLoginTokenError m) = Some m"
| "error_message (JsError m) = Some m"
| "error_message JsTypeError = Some []"
| "error_message NotFoundError = Some []"
| "error_message Undefined = None"

section \<open>Messages\<close>

text \<open>\<open>EmbeddedCheckoutEventType\<close> and \<open>EmbeddedContentEventType\<close>.\<close>

definition CheckoutComplete :: string where "CheckoutComplete = ''CHECKOUT_COMPLETE''"
definition CheckoutError :: string where "CheckoutError = ''CHECKOUT_ERROR''"
definition CheckoutLoaded :: string where "CheckoutLoaded = ''CHECKOUT_LOADED''"
definition FrameError :: string where "FrameError = ''FRAME_ERROR''"
definition FrameLoaded :: string where "FrameLoaded = ''FRAME_LOADED''"
definition SignedOut :: string where "SignedOut = ''SIGNED_OUT''"
definition StyleConfigured :: string where "StyleConfigured = ''STYLE_CONFIGURED''"

definition EmbeddedCheckoutEventType :: "string list" where
  "EmbeddedCheckoutEventType =
     [CheckoutComplete, CheckoutError, CheckoutLoaded, FrameError, FrameLoaded, SignedOut]"

text \<open>
  The \<open>data\<close> of a message event, \<open>{ type, payload? }\<close>: of a payload that arrived, the two
  members this code reads (\<open>message\<close> and \<open>contentId\<close>); a payload made by the controller
  itself is the error it reports or the styles it posts. A member that is missing is
  \<open>None\<close>.
\<close>

datatype payload =
    Fields "string option" "string option"
  | ErrorObject embed_error
  | Styles string

fun payload_message :: "payload \<Rightarrow> string option" where
  "payload_message (Fields m c) = m"
| "payload_message (ErrorObject e) = error_message e"
| "payload_message (Styles st) = None"

fun payload_contentId :: "payload \<Rightarrow> string option" where
  "payload_contentId (Fields m c) = c"
| "payload_contentId (ErrorObject e) = None"
| "payload_contentId (Styles st) = None"

record message_data =
  type :: "string option"
  payload :: "payload option"

record message_event =
  origin :: string
  data :: message_data


text \<open>
  \<open>isIframeEvent(object, type)\<close>: \<open>object.type === type\<close>. The key under which an
  object holds a property named by a value: \<open>undefined\<close> is the key \<open>"undefined"\<close>.
\<close>

definition isIframeEvent :: "message_data \<Rightarrow> string option \<Rightarrow> bool" where
  "isIframeEvent object t = (type object = t)"

definition property_key :: "string option \<Rightarrow> string" where
  "property_key t = (case t of None \<Rightarrow> ''undefined'' | Some k \<Rightarrow> k)"

section \<open>The browser\<close>

text \<open>
  What \<open>JSON.parse\<close> makes of a stored string: a value, or a syntax error. Objects and
  arrays are all truthy and are one value here.
\<close>

datatype json = JNull | JBool bool | JNumber int | JString string | JObject

datatype stored = Parses json | Malformed

fun truthy :: "json \<Rightarrow> bool" where
  "truthy JNull = False"
| "truthy (JBool b) = b"
| "truthy (JNumber n) = (n \<noteq> 0)"
| "truthy (JString s) = (s \<noteq> [])"
| "truthy JObject = True"

text \<open>The settings \<open>iframeResizer\<close> is called with, and whether it has been closed.\<close>

record resizer =
  scrolling :: bool
  sizeWidth :: bool
  heightCalculationMethod :: string
  closed :: bool

text \<open>
  An iframe element: its \<open>src\<close>, \<open>style.display\<close>, the id of the container it is a child
  of (\<open>parentNode\<close>), and the resizer \<open>iframeResizer\<close> attached to it. Its border, width
  and \<open>allowPaymentRequest\<close> are set once and never read. An iframe has a
  \<open>contentWindow\<close> while it is in the document.
\<close>

record iframe_element =
  src :: string
  display :: string
  parentNode :: "string option"
  iFrameResizer :: "resizer option"

text \<open>
  What leaves the page, in order: a navigation, an HTTP request, a message posted to
  the content window of an iframe (the frame, the target origin, the message), a
  function of the host page called with a message, a timer set or cleared.
\<close>

datatype effect =
    LocationReplace string
  | HttpPost string
  | PostMessage nat string message_data
  | HostCall string message_data
  | SetTimeout nat
  | ClearTimeout

text \<open>
  The state of the page: local storage, the ids \<open>document.getElementById\<close> finds, every
  iframe element created so far (an element is known by its position),
  \<open>location.href\<close>, \<open>document.body.style.visibility\<close>, and the effects so far.
\<close>

record browser =
  localStorage :: "string \<Rightarrow> stored option"
  getElementById :: "string \<Rightarrow> bool"
  frames :: "iframe_element list"
  location_href :: string
  body_visibility :: string
  effects :: "effect list"

text \<open>
  The functions of the runtime this code calls: the \<open>origin\<close> and \<open>pathname\<close> an anchor
  element gives for an \<open>href\<close>, the value the \<open>src\<close> of an iframe reads back as, and
  \<open>encodeURIComponent\<close>.
\<close>

record runtime =
  origin_of :: "string \<Rightarrow> string"
  pathname_of :: "string \<Rightarrow> string"
  src_of :: "string \<Rightarrow> string"
  encodeURIComponent :: "string \<Rightarrow> string"

definition emit :: "effect \<Rightarrow> browser \<Rightarrow> browser" where
  "emit x w = w\<lparr>effects := effects w @ [x]\<rparr>"

definition in_document :: "browser \<Rightarrow> nat \<Rightarrow> bool" where
  "in_document w i = (parentNode (frames w ! i) \<noteq> None)"

section \<open>parseUrl\<close>

text \<open>\<open>/^(https?:)?\/\//.test(url)\<close> and \<open>/^\/login\/token/.test(pathname)\<close>.\<close>

definition is_absolute :: "string \<Rightarrow> bool" where
  "is_absolute u = (take 2 u = ''//'' \<or> take 7 u = ''http://'' \<or> take 8 u = ''https://'')"

definition is_login_token_path :: "string \<Rightarrow> bool" where
  "is_login_token_path p = (take 12 p = ''/login/token'')"

record parsed_url =
  url_origin :: string
  url_pathname :: string

definition parseUrl :: "runtime \<Rightarrow> string \<Rightarrow> embed_error + parsed_url" where
  "parseUrl rt u =
     (if \<not> is_absolute u
      then Inl (new_InvalidArgumentError (Some ''The provided URL must be absolute.''))
      else Inr \<lparr>url_origin = origin_of rt u, url_pathname = pathname_of rt u\<rparr>)"

section \<open>BrowserStorage\<close>

definition withNamespace :: "string \<Rightarrow> string \<Rightarrow> string" where
  "withNamespace namespace k = namespace @ ''.'' @ k"

definition removeItem :: "string \<Rightarrow> string \<Rightarrow> browser \<Rightarrow> browser" where
  "removeItem namespace k w =
     w\<lparr>localStorage := (localStorage w)(withNamespace namespace k := None)\<rparr>"

definition setItem :: "string \<Rightarrow> string \<Rightarrow> json \<Rightarrow> browser \<Rightarrow> browser" where
  "setItem namespace k v w =
     w\<lparr>localStorage := (localStorage w)(withNamespace namespace k \<mapsto> Parses v)\<rparr>"

text \<open>
  \<open>getItem\<close>: \<open>null\<close> for a missing item; an item that does not parse is removed (under
  the key with the namespace put in front twice, as the source does) and \<open>null\<close> is
  returned.
\<close>

definition getItem :: "string \<Rightarrow> string \<Rightarrow> browser \<Rightarrow> json \<times> browser" where
  "getItem namespace k w =
     (case localStorage w (withNamespace namespace k) of
        None \<Rightarrow> (JNull, w)
      | Some (Parses v) \<Rightarrow> (v, w)
      | Some Malformed \<Rightarrow> (JNull, removeItem namespace (withNamespace namespace k) w))"

definition getItemOnce :: "string \<Rightarrow> string \<Rightarrow> browser \<Rightarrow> json \<times> browser" where
  "getItemOnce namespace k w =
     (case getItem namespace k w of (v, w') \<Rightarrow> (v, removeItem namespace k w'))"

section \<open>IframeEventListener\<close>

text \<open>
  The listener is registered with the window exactly while \<open>isListening\<close> holds.
  \<open>listeners\<close> is the object that holds, under a property key, the functions added under
  it in the order of \<open>addListener\<close>: a list of keys with their functions, each key once.
\<close>

record 'l IframeEventListener =
  sourceOrigin :: string
  isListening :: bool
  listeners :: "(string \<times> 'l list) list"

definition new_IframeEventListener :: "runtime \<Rightarrow> string \<Rightarrow> embed_error + 'l IframeEventListener" where
  "new_IframeEventListener rt u =
     (case parseUrl rt u of
        Inl e \<Rightarrow> Inl e
      | Inr p \<Rightarrow> Inr \<lparr>sourceOrigin = url_origin p, isListening = False, listeners = []\<rparr>)"

definition listen :: "'l IframeEventListener \<Rightarrow> 'l IframeEventListener" where
  "listen l = (if isListening l then l else l\<lparr>isListening := True\<rparr>)"

definition stopListen :: "'l IframeEventListener \<Rightarrow> 'l IframeEventListener" where
  "stopListen l = (if isListening l then l\<lparr>isListening := False\<rparr> else l)"

definition addListener :: "string \<Rightarrow> 'l \<Rightarrow> 'l IframeEventListener \<Rightarrow> 'l IframeEventListener" where
  "addListener t f l =
     l\<lparr>listeners :=
         AList.update t ((case map_of (listeners l) t of None \<Rightarrow> [] | Some n \<Rightarrow> n) @ [f])
           (listeners l)\<rparr>"

definition removeListener :: "string \<Rightarrow> 'l \<Rightarrow> 'l IframeEventListener \<Rightarrow> 'l IframeEventListener" where
  "removeListener t f l =
     (case map_of (listeners l) t of
        None \<Rightarrow> l
      | Some n \<Rightarrow> l\<lparr>listeners := AList.update t (remove1 f n) (listeners l)\<rparr>)"

text \<open>\<open>trigger(event)\<close>: the calls \<open>listener(event)\<close> it makes, in order.\<close>

definition trigger :: "'l IframeEventListener \<Rightarrow> message_data \<Rightarrow> ('l \<times> message_data) list" where
  "trigger l e =
     (case map_of (listeners l) (property_key (type e)) of
        None \<Rightarrow> []
      | Some n \<Rightarrow> map (\<lambda>f. (f, e)) n)"

text \<open>\<open>_handleMessage(event)\<close>, the function registered with the window.\<close>

definition handleMessage :: "'l IframeEventListener \<Rightarrow> message_event \<Rightarrow> ('l \<times> message_data) list" where
  "handleMessage l ev =
     (if origin ev = sourceOrigin l \<and> isIframeEvent (data ev) (type (data ev))
      then trigger l (data ev)
      else [])"

section \<open>IframeEventPoster\<close>

record IframeEventPoster =
  targetOrigin :: string
  targetWindow :: "nat option"

definition new_IframeEventPoster ::
  "runtime \<Rightarrow> string \<Rightarrow> nat option \<Rightarrow> embed_error + IframeEventPoster" where
  "new_IframeEventPoster rt t win =
     (if t = ''*'' then Inr \<lparr>targetOrigin = ''*'', targetWindow = win\<rparr>
      else (case parseUrl rt t of
              Inl e \<Rightarrow> Inl e
            | Inr p \<Rightarrow> Inr \<lparr>targetOrigin = url_origin p, targetWindow = win\<rparr>))"

definition setTarget :: "nat option \<Rightarrow> IframeEventPoster \<Rightarrow> IframeEventPoster" where
  "setTarget win p = p\<lparr>targetWindow := win\<rparr>"

text \<open>
  \<open>post(event)\<close>: the window of the page itself is never the content window of an
  iframe, so the message is posted whenever a target is set.
\<close>

definition post :: "IframeEventPoster \<Rightarrow> message_data \<Rightarrow> browser \<Rightarrow> embed_error + browser" where
  "post p e w =
     (case targetWindow p of
        None \<Rightarrow> Inl (JsError ''Unable to post message becauset target window is not set.'')
      | Some i \<Rightarrow> Inr (emit (PostMessage i (targetOrigin p) e) w))"

section \<open>LoadingIndicator\<close>

text \<open>
  The indicator's container element: the element it has been appended to, its
  \<open>style.visibility\<close> and \<open>style.opacity\<close>, and the number of \<open>transitionend\<close> listeners
  \<open>hide\<close> has left on it (each sets the visibility to \<open>hidden\<close> when the transition ends,
  which is the browser's doing, later).
\<close>

record LoadingIndicator =
  parentId :: "string option"
  visibility :: string
  opacity :: string
  transitionend :: nat

definition new_LoadingIndicator :: LoadingIndicator where
  "new_LoadingIndicator = \<lparr>parentId = None, visibility = [], opacity = ''0'', transitionend = 0\<rparr>"

definition show_indicator :: "string \<Rightarrow> LoadingIndicator \<Rightarrow> browser \<Rightarrow> embed_error + LoadingIndicator" where
  "show_indicator pid li w =
     (if pid \<noteq> [] \<and> \<not> getElementById w pid
      then Inl (JsError ''Unable to attach the loading indicator because the parent ID is not valid.'')
      else Inr ((if pid \<noteq> [] then li\<lparr>parentId := Some pid\<rparr> else li)
                 \<lparr>visibility := ''visible'', opacity := ''1''\<rparr>))"

definition hide_indicator :: "LoadingIndicator \<Rightarrow> LoadingIndicator" where
  "hide_indicator li = li\<lparr>transitionend := Suc (transitionend li), opacity := ''0''\<rparr>"


section \<open>IframeCreator\<close>

text \<open>
  \<open>createFrame\<close> waits for messages. What arrives at the window while it waits, before
  its timer fires, is a list of message events; when the list is used up the timer
  fires. The window may have other listeners registered before the one of
  \<open>_toResizableFrame\<close>; \<open>others\<close> is what they do with a message, to a state of their
  own and to the page.
\<close>

definition update_frame :: "nat \<Rightarrow> (iframe_element \<Rightarrow> iframe_element) \<Rightarrow> browser \<Rightarrow> browser" where
  "update_frame i f w = w\<lparr>frames := (frames w)[i := f (frames w ! i)]\<rparr>"

text \<open>
  The message listener of \<open>_toResizableFrame(iframe, timeout)\<close> on one event: \<open>None\<close> when
  the promise stays as it was. A message of another origin is ignored, and so is
  every message when \<open>parseUrl(iframe.src)\<close> throws. On a frame-error message the listener
  and the timer are removed first and then the error is built from
  \<open>data.payload.message\<close>: without a payload that is a \<open>TypeError\<close> inside the listener and
  the promise never settles. On a frame-loaded message the iframe is shown, the resizer
  is attached, and the promise resolves with the iframe.
\<close>

definition frame_listener ::
  "runtime \<Rightarrow> nat \<Rightarrow> message_event \<Rightarrow> browser \<Rightarrow> nat outcome option \<times> browser" where
  "frame_listener rt i ev w =
     (case parseUrl rt (src (frames w ! i)) of
        Inl e \<Rightarrow> (None, w)
      | Inr p \<Rightarrow>
          if origin ev \<noteq> url_origin p then (None, w)
          else if isIframeEvent (data ev) (Some FrameError) then
            (case payload (data ev) of
               None \<Rightarrow> (Some Pending, emit ClearTimeout w)
             | Some pl \<Rightarrow>
                 (Some (Rejected (new_NotEmbeddableError (payload_message pl) (Some MissingContent))),
                  emit ClearTimeout w))
          else if isIframeEvent (data ev) (Some FrameLoaded) then
            (Some (Resolved i),
             emit ClearTimeout
               (update_frame i
                  (\<lambda>f. f\<lparr>display := [],
                         iFrameResizer :=
                           Some \<lparr>scrolling = False, sizeWidth = False,
                                 heightCalculationMethod =
                                   (if (case payload (data ev) of
                                          None \<Rightarrow> False
                                        | Some pl \<Rightarrow> truthy_string (payload_contentId pl))
                                    then ''taggedElement'' else ''lowestElement''),
                                 closed = False\<rparr>\<rparr>) w))
          else (None, w))"

fun wait_for_frame ::
  "(message_event \<Rightarrow> 'x \<times> browser \<Rightarrow> 'x \<times> browser) \<Rightarrow> runtime \<Rightarrow> nat \<Rightarrow>
   message_event list \<Rightarrow> 'x \<times> browser \<Rightarrow> nat outcome \<times> 'x \<times> browser" where
  "wait_for_frame others rt i [] (x, w) =
     (Rejected (new_NotEmbeddableError
                  (Some ''Unable to embed the iframe because the content could not be loaded.'')
                  None),
      x, w)"
| "wait_for_frame others rt i (ev # evs) (x, w) =
     (case others ev (x, w) of
        (x', w') \<Rightarrow>
          (case frame_listener rt i ev w' of
             (None, w'') \<Rightarrow> wait_for_frame others rt i evs (x', w'')
           | (Some out, w'') \<Rightarrow> (out, x', w'')))"

definition toResizableFrame ::
  "(message_event \<Rightarrow> 'x \<times> browser \<Rightarrow> 'x \<times> browser) \<Rightarrow> runtime \<Rightarrow> nat \<Rightarrow> nat \<Rightarrow>
   message_event list \<Rightarrow> 'x \<times> browser \<Rightarrow> nat outcome \<times> 'x \<times> browser" where
  "toResizableFrame others rt i timeout evs s =
     (case s of (x, w) \<Rightarrow> wait_for_frame others rt i evs (x, emit (SetTimeout timeout) w))"

text \<open>\<open>container.removeChild(iframe)\<close>: a \<open>NotFoundError\<close> unless the iframe is its child.\<close>

definition removeChild :: "string \<Rightarrow> nat \<Rightarrow> browser \<Rightarrow> embed_error + browser" where
  "removeChild container i w =
     (if parentNode (frames w ! i) = Some container
      then Inr (update_frame i (\<lambda>f. f\<lparr>parentNode := None\<rparr>) w)
      else Inl NotFoundError)"

text \<open>
  \<open>createFrame(src, containerId)\<close> of an \<open>IframeCreator\<close> whose options hold \<open>timeout\<close>
  (milliseconds), or nothing.
\<close>

definition createFrame ::
  "(message_event \<Rightarrow> 'x \<times> browser \<Rightarrow> 'x \<times> browser) \<Rightarrow> runtime \<Rightarrow> nat option \<Rightarrow> string \<Rightarrow>
   string \<Rightarrow> message_event list \<Rightarrow> 'x \<times> browser \<Rightarrow> nat outcome \<times> 'x \<times> browser" where
  "createFrame others rt timeout_option source containerId evs s =
     (case s of (x, w) \<Rightarrow>
        let timeout = (case timeout_option of None \<Rightarrow> 60000 | Some t \<Rightarrow> t) in
        if \<not> getElementById w containerId
        then (Thrown (new_NotEmbeddableError
                        (Some ''Unable to embed the iframe because the container element could not be found.'')
                        (Some MissingContainer)),
              x, w)
        else
          let i = length (frames w);
              w1 = w\<lparr>frames := frames w @
                      [\<lparr>src = src_of rt source, display = ''none'',
                        parentNode = Some containerId, iFrameResizer = None\<rparr>]\<rparr>
          in catch_do (toResizableFrame others rt i timeout evs (x, w1))
               (\<lambda>e (x', w').
                  case removeChild containerId i w' of
                    Inl e' \<Rightarrow> (Thrown e', x', w')
                  | Inr w'' \<Rightarrow> (Thrown e, x', w'')))"

definition no_other_listeners :: "message_event \<Rightarrow> unit \<times> browser \<Rightarrow> unit \<times> browser" where
  "no_other_listeners ev s = s"

section \<open>EmbeddedCheckout\<close>

text \<open>
  The options of \<open>embedCheckout\<close>: a function of the host page is known by a name, the
  styles are one opaque value.
\<close>

record EmbeddedCheckoutOptions =
  url :: string
  containerId :: string
  styles :: "string option"
  onComplete :: "string option"
  onError :: "string option"
  onLoad :: "string option"
  onFrameLoad :: "string option"
  onSignOut :: "string option"

text \<open>
  The functions the controller adds to its message listener: a function of the host
  page, or its own closure that calls \<open>_configureStyles\<close>.
\<close>

datatype listener = HostFunction string | ConfigureStyles

text \<open>
  The controller with the collaborators it owns: the message listener, the message
  poster, the loading indicator, the \<open>timeout\<close> of its iframe creator and the
  namespace of its storage. \<open>iframe\<close> is the resizable iframe it last created.
\<close>

record EmbeddedCheckout =
  options :: EmbeddedCheckoutOptions
  isAttached :: bool
  iframe :: "nat option"
  messageListener :: "listener IframeEventListener"
  messagePoster :: IframeEventPoster
  loadingIndicator :: LoadingIndicator
  iframeCreator_timeout :: "nat option"
  storage :: string

type_synonym page = "EmbeddedCheckout \<times> browser"

text \<open>Asynchronous answers: of the request sender to a POST (the title of the body of a
  failed response, or the \<open>redirectUrl\<close> of the body), and the messages that arrive while
  the iframe is awaited.\<close>

record scenario =
  post_response :: "string \<Rightarrow> string + string"
  arrivals :: "message_event list"

definition add_if ::
  "string option \<Rightarrow> string \<Rightarrow> listener IframeEventListener \<Rightarrow> listener IframeEventListener" where
  "add_if f t l = (case f of None \<Rightarrow> l | Some name \<Rightarrow> addListener t (HostFunction name) l)"

definition new_EmbeddedCheckout ::
  "nat option \<Rightarrow> listener IframeEventListener \<Rightarrow> IframeEventPoster \<Rightarrow> LoadingIndicator \<Rightarrow>
   string \<Rightarrow> EmbeddedCheckoutOptions \<Rightarrow> EmbeddedCheckout" where
  "new_EmbeddedCheckout timeout l p li namespace opts =
     \<lparr>options = opts, isAttached = False, iframe = None,
      messageListener =
        addListener FrameLoaded ConfigureStyles
          (add_if (onSignOut opts) SignedOut
          (add_if (onFrameLoad opts) FrameLoaded
          (add_if (onLoad opts) CheckoutLoaded
          (add_if (onError opts) CheckoutError
          (add_if (onComplete opts) CheckoutComplete l))))),
      messagePoster = p, loadingIndicator = li, iframeCreator_timeout = timeout,
      storage = namespace\<rparr>"

text \<open>\<open>_configureStyles()\<close>; what \<open>post\<close> throws leaves it.\<close>

definition configureStyles :: "page \<Rightarrow> embed_error option \<times> page" where
  "configureStyles s =
     (case s of (c, w) \<Rightarrow>
        (case iframe c of
           None \<Rightarrow> (None, c, w)
         | Some i \<Rightarrow>
             if \<not> in_document w i then (None, c, w)
             else (case styles (options c) of
                     None \<Rightarrow> (None, c, w)
                   | Some st \<Rightarrow>
                       let c' = c\<lparr>messagePoster := setTarget (Some i) (messagePoster c)\<rparr> in
                       (case post (messagePoster c')
                               \<lparr>type = Some StyleConfigured, payload = Some (Styles st)\<rparr> w of
                          Inl e \<Rightarrow> (Some e, c', w)
                        | Inr w' \<Rightarrow> (None, c', w')))))"

text \<open>
  The calls a \<open>trigger\<close> makes, run in order; an exception ends them.
\<close>

fun call_listeners :: "(listener \<times> message_data) list \<Rightarrow> page \<Rightarrow> embed_error option \<times> page" where
  "call_listeners [] s = (None, s)"
| "call_listeners ((HostFunction name, e) # rest) (c, w) =
     call_listeners rest (c, emit (HostCall name e) w)"
| "call_listeners ((ConfigureStyles, e) # rest) s =
     (case configureStyles s of
        (Some err, s') \<Rightarrow> (Some err, s')
      | (None, s') \<Rightarrow> call_listeners rest s')"

text \<open>
  A message event at the window: the controller's \<open>_handleMessage\<close> runs if it is
  registered; an exception inside it is not the page's to catch.
\<close>

definition on_message :: "message_event \<Rightarrow> page \<Rightarrow> page" where
  "on_message ev s =
     (case s of (c, w) \<Rightarrow>
        if isListening (messageListener c)
        then snd (call_listeners (handleMessage (messageListener c) ev) (c, w))
        else (c, w))"

text \<open>\<open>_allowCookie()\<close>.\<close>

definition allowCookie :: "runtime \<Rightarrow> page \<Rightarrow> unit outcome \<times> page" where
  "allowCookie rt s =
     (case s of (c, w) \<Rightarrow>
        (case getItem (storage c) ''isCookieAllowed'' w of
           (allowed, w1) \<Rightarrow>
             if truthy allowed
             then (Resolved (), c, setItem (storage c) ''canRetryAllowCookie'' (JBool True) w1)
             else
               let w2 = removeItem (storage c) ''canRetryAllowCookie'' w1;
                   w3 = setItem (storage c) ''isCookieAllowed'' (JBool True) w2
               in (case parseUrl rt (url (options c)) of
                     Inl e \<Rightarrow> (Thrown e, c, w3)
                   | Inr p \<Rightarrow>
                       let redirectUrl =
                             url_origin p @ ''/embedded-checkout/allow-cookie?returnUrl='' @
                             encodeURIComponent rt (location_href w3)
                       in (Pending, c,
                           emit (LocationReplace redirectUrl) (w3\<lparr>body_visibility := ''hidden''\<rparr>)))))"

text \<open>\<open>_retryAllowCookie(error)\<close>.\<close>

definition is_missing_content :: "embed_error \<Rightarrow> bool" where
  "is_missing_content e = (case e of NotEmbeddableError m k \<Rightarrow> k = MissingContent | _ \<Rightarrow> False)"

definition retryAllowCookie :: "runtime \<Rightarrow> embed_error \<Rightarrow> page \<Rightarrow> unit outcome \<times> page" where
  "retryAllowCookie rt e s =
     (case s of (c, w) \<Rightarrow>
        (case getItem (storage c) ''canRetryAllowCookie'' w of
           (can, w1) \<Rightarrow>
             if truthy can \<and> is_missing_content e
             then allowCookie rt
                    (c, removeItem (storage c) ''isCookieAllowed''
                          (removeItem (storage c) ''canRetryAllowCookie'' w1))
             else (Rejected Undefined, c, w1)))"

text \<open>\<open>_attemptLogin()\<close>.\<close>

definition attemptLogin :: "runtime \<Rightarrow> scenario \<Rightarrow> page \<Rightarrow> string outcome \<times> page" where
  "attemptLogin rt sc s =
     (case s of (c, w) \<Rightarrow>
        (case parseUrl rt (url (options c)) of
           Inl e \<Rightarrow> (Thrown e, c, w)
         | Inr p \<Rightarrow>
             if is_login_token_path (url_pathname p)
             then (case post_response sc (url (options c)) of
                     Inr redirectUrl \<Rightarrow> (Resolved redirectUrl, c, emit (HttpPost (url (options c))) w)
                   | Inl title \<Rightarrow>
                       (Rejected (InvalidLoginTokenError title), c,
                        emit (HttpPost (url (options c))) w))
             else (Resolved (url (options c)), c, w)))"

text \<open>
  \<open>attach()\<close>, the promise chain as it is written:
  \<open>_allowCookie().then(login).then(createFrame).then(configure).catch(recover).then(() => this)\<close>;
  \<open>attach_steps\<close> is the chain up to the \<open>catch\<close>. The messages of the scenario arrive
  while the iframe is awaited; the controller's own listener has been registered with the
  window before the one of the iframe creator.
\<close>

definition attach_configure :: "nat \<Rightarrow> page \<Rightarrow> unit outcome \<times> page" where
  "attach_configure i s =
     (case s of (c, w) \<Rightarrow>
        (case configureStyles (c\<lparr>iframe := Some i\<rparr>, w) of
           (Some e, s') \<Rightarrow> (Thrown e, s')
         | (None, c', w') \<Rightarrow>
             (Resolved (), c'\<lparr>loadingIndicator := hide_indicator (loadingIndicator c')\<rparr>, w')))"

definition attach_report :: "embed_error \<Rightarrow> page \<Rightarrow> unit outcome \<times> page" where
  "attach_report e s =
     (case s of (c, w) \<Rightarrow>
        (case call_listeners
                (trigger (messageListener c) \<lparr>type = Some FrameError, payload = Some (ErrorObject e)\<rparr>)
                (c, w) of
           (Some e', s') \<Rightarrow> (Thrown e', s')
         | (None, c', w') \<Rightarrow>
             (Thrown e, c'\<lparr>loadingIndicator := hide_indicator (loadingIndicator c')\<rparr>, w')))"

definition attach_recover :: "runtime \<Rightarrow> embed_error \<Rightarrow> page \<Rightarrow> unit outcome \<times> page" where
  "attach_recover rt e s =
     (case s of (c, w) \<Rightarrow>
        catch_do (retryAllowCookie rt e (c\<lparr>isAttached := False\<rparr>, w)) (\<lambda>_. attach_report e))"

definition attach_steps :: "runtime \<Rightarrow> scenario \<Rightarrow> page \<Rightarrow> unit outcome \<times> page" where
  "attach_steps rt sc s =
     then_do
       (then_do
          (then_do (allowCookie rt s) (\<lambda>_. attemptLogin rt sc))
          (\<lambda>source (c', w').
             createFrame on_message rt (iframeCreator_timeout c') source
               (containerId (options c')) (arrivals sc) (c', w')))
       attach_configure"

definition attach :: "runtime \<Rightarrow> scenario \<Rightarrow> page \<Rightarrow> unit outcome \<times> page" where
  "attach rt sc s =
     (case s of (c, w) \<Rightarrow>
        if isAttached c then (Resolved (), c, w)
        else
          let c1 = c\<lparr>isAttached := True, messageListener := listen (messageListener c)\<rparr> in
          (case show_indicator (containerId (options c1)) (loadingIndicator c1) w of
             Inl e \<Rightarrow> (Thrown e, c1, w)
           | Inr li \<Rightarrow>
               then_do
                 (catch_do (attach_steps rt sc (c1\<lparr>loadingIndicator := li\<rparr>, w))
                    (attach_recover rt))
                 (\<lambda>_ s'. (Resolved (), s'))))"

text \<open>\<open>detach()\<close>.\<close>

definition detach :: "page \<Rightarrow> embed_error option \<times> page" where
  "detach s =
     (case s of (c, w) \<Rightarrow>
        if \<not> isAttached c then (None, c, w)
        else
          let c1 = c\<lparr>isAttached := False, messageListener := stopListen (messageListener c)\<rparr> in
          (case iframe c1 of
             None \<Rightarrow> (None, c1, w)
           | Some i \<Rightarrow>
               (case parentNode (frames w ! i) of
                  None \<Rightarrow> (None, c1, w)
                | Some container \<Rightarrow>
                    let w1 = update_frame i (\<lambda>f. f\<lparr>parentNode := None\<rparr>) w in
                    (case iFrameResizer (frames w1 ! i) of
                       None \<Rightarrow> (Some JsTypeError, c1, w1)
                     | Some r \<Rightarrow>
                         (None, c1,
                          update_frame i (\<lambda>f. f\<lparr>iFrameResizer := Some (r\<lparr>closed := True\<rparr>)\<rparr>) w1)))))"

text \<open>
  \<open>embedCheckout(options)\<close>: builds the controller over the origin of \<open>options.url\<close>, an
  iframe creator without options and the storage namespace of the bundle, and
  attaches it.
\<close>

definition embedCheckout ::
  "runtime \<Rightarrow> scenario \<Rightarrow> EmbeddedCheckoutOptions \<Rightarrow> browser \<Rightarrow>
   embed_error + (unit outcome \<times> page)" where
  "embedCheckout rt sc opts w =
     (case parseUrl rt (url opts) of
        Inl e \<Rightarrow> Inl e
      | Inr p \<Rightarrow>
          (case new_IframeEventListener rt (url_origin p) of
             Inl e \<Rightarrow> Inl e
           | Inr l \<Rightarrow>
               (case new_IframeEventPoster rt (url_origin p) None of
                  Inl e \<Rightarrow> Inl e
                | Inr poster \<Rightarrow>
                    Inr (attach rt sc
                           (new_EmbeddedCheckout None l poster new_LoadingIndicator
                              ''BigCommerce.EmbeddedCheckout'' opts, w)))))"


section \<open>Notions the properties are stated with\<close>

text \<open>
  A frame handle is an iframe with its resizer; it is live while the iframe is in the
  document and the resizer has not been closed.
\<close>

definition frame_handle_live :: "browser \<Rightarrow> nat \<Rightarrow> bool" where
  "frame_handle_live w i =
     (i < length (frames w) \<and> parentNode (frames w ! i) \<noteq> None \<and>
      (case iFrameResizer (frames w ! i) of None \<Rightarrow> False | Some r \<Rightarrow> \<not> closed r))"







text \<open>The keys of a listener map are all message types of the enumeration.\<close>

definition recognized_only :: "'l IframeEventListener \<Rightarrow> bool" where
  "recognized_only l = list_all (\<lambda>kfs. fst kfs \<in> set EmbeddedCheckoutEventType) (listeners l)"

text \<open>
  Two controllers that differ at most in the target of the message poster, and the
  controllers of two pages doing so.
\<close>

definition same_controller :: "EmbeddedCheckout \<Rightarrow> EmbeddedCheckout \<Rightarrow> bool" where
  "same_controller c c' = (c' = c\<lparr>messagePoster := messagePoster c'\<rparr>)"

text \<open>Two states of the page that differ at most in the effects so far.\<close>

definition same_page :: "browser \<Rightarrow> browser \<Rightarrow> bool" where
  "same_page w w' = (w' = w\<lparr>effects := effects w'\<rparr>)"



section \<open>An example page\<close>

text \<open>
  A runtime for \<open>https\<close> URLs without port, query or fragment; a checkout at
  \<open>https://store.example\<close> embedded in the element \<open>checkout\<close> of a page of
  \<open>https://host.example\<close>.
\<close>

definition https_origin :: "string \<Rightarrow> string" where
  "https_origin u = take 8 u @ takeWhile (\<lambda>c. c \<noteq> CHR ''/'') (drop 8 u)"

definition https_pathname :: "string \<Rightarrow> string" where
  "https_pathname u = dropWhile (\<lambda>c. c \<noteq> CHR ''/'') (drop 8 u)"

text \<open>\<open>encodeURIComponent\<close> on ASCII text: all but the unreserved characters are escaped.\<close>

definition hex_digit :: "nat \<Rightarrow> char" where
  "hex_digit n = ''0123456789ABCDEF'' ! n"

definition unreserved :: "char \<Rightarrow> bool" where
  "unreserved ch =
     (ch \<in> set ''ABCDEFGHIJKLMNOPQRSTUVWXYZabcdefghijklmnopqrstuvwxyz0123456789-_.!~*()'' \<or>
      ch = CHR 0x27)"

definition percent_encode :: "string \<Rightarrow> string" where
  "percent_encode s =
     concat (map (\<lambda>ch. if unreserved ch then [ch]
                         else [CHR ''%'', hex_digit (of_char ch div 16),
                               hex_digit (of_char ch mod 16)]) s)"

definition example_runtime :: runtime where
  "example_runtime =
     \<lparr>origin_of = https_origin, pathname_of = https_pathname, src_of = (\<lambda>u. u),
      encodeURIComponent = percent_encode\<rparr>"

definition example_options :: EmbeddedCheckoutOptions where
  "example_options =
     \<lparr>url = ''https://store.example/embedded-checkout'', containerId = ''checkout'',
      styles = Some ''styles'', onComplete = Some ''onComplete'', onError = None,
      onLoad = None, onFrameLoad = Some ''onFrameLoad'', onSignOut = None\<rparr>"

definition example_browser :: "(string \<Rightarrow> stored option) \<Rightarrow> browser" where
  "example_browser ls =
     \<lparr>localStorage = ls, getElementById = (\<lambda>i. i = ''checkout''), frames = [],
      location_href = ''https://host.example/cart'', body_visibility = [], effects = []\<rparr>"

definition cookie_allowed :: "string \<Rightarrow> stored option" where
  "cookie_allowed =
     Map.empty(''BigCommerce.EmbeddedCheckout.isCookieAllowed'' \<mapsto> Parses (JBool True))"

definition retry_armed :: "string \<Rightarrow> stored option" where
  "retry_armed =
     Map.empty(''BigCommerce.EmbeddedCheckout.canRetryAllowCookie'' \<mapsto> Parses (JBool True))"

definition from_store :: "string \<Rightarrow> payload option \<Rightarrow> message_event" where
  "from_store t p = \<lparr>origin = ''https://store.example'', data = \<lparr>type = Some t, payload = p\<rparr>\<rparr>"

definition frame_loads :: scenario where
  "frame_loads = \<lparr>post_response = (\<lambda>u. Inr u), arrivals = [from_store FrameLoaded None]\<rparr>"

definition content_missing :: scenario where
  "content_missing =
     \<lparr>post_response = (\<lambda>u. Inr u),
      arrivals = [from_store FrameError (Some (Fields (Some ''Empty content'') None))]\<rparr>"

definition never_loads :: scenario where
  "never_loads = \<lparr>post_response = (\<lambda>u. Inr u), arrivals = []\<rparr>"

text \<open>
  The controller \<open>embedCheckout\<close> builds for the example options, and the same with a
  function of the host page listening for frame errors.
\<close>

definition example_listener :: "listener IframeEventListener" where
  "example_listener =
     \<lparr>sourceOrigin = ''https://store.example'', isListening = False, listeners = []\<rparr>"

definition example_checkout :: EmbeddedCheckout where
  "example_checkout =
     new_EmbeddedCheckout None example_listener
       \<lparr>targetOrigin = ''https://store.example'', targetWindow = None\<rparr>
       new_LoadingIndicator ''BigCommerce.EmbeddedCheckout'' example_options"

definition watched_checkout :: EmbeddedCheckout where
  "watched_checkout =
     example_checkout
       \<lparr>messageListener :=
          addListener FrameError (HostFunction ''onFrameError'') (messageListener example_checkout)\<rparr>"

text \<open>
  The page after the example checkout has been attached with consent given and the
  frame loading; the page after the content was missing once; the example checkout
  for a container that does not exist.
\<close>

definition attached_page :: page where
  "attached_page =
     snd (attach example_runtime frame_loads (example_checkout, example_browser cookie_allowed))"


definition misplaced_checkout :: EmbeddedCheckout where
  "misplaced_checkout =
     example_checkout\<lparr>options := example_options\<lparr>containerId := ''missing''\<rparr>\<rparr>"

(*PROPERTIES*)

chapter \<open>Properties of the payment strategies\<close>

lemmas eff_defs =
  resolve_def reject_def await_then_def settle_def do_submitOrder_def do_tokenize_def
  do_verifyBuyer_def do_loadPaymentMethod_def do_submitPayment_def shouldVerify_def

lemmas square_defs =
  SquareV2PaymentStrategy_execute_def processWithVaultedInstrument_def
  getSquareCardIdOrThrow_def

lemmas example_defs =
  example_square_env_def vaulted_data_def vaulted_payment_def vaulted_request_def
  card_data_def card_request_def add_3ds_support_def cardId_of_def truthy_string_def
  truthy_bool_def default_false_def

text \<open>
  The calls \<open>execute\<close> makes are added to the calls made before; the first of them, if
  there is any, submits the order, and there is a second one only when that
  submission resolved.
\<close>

lemma execute_calls:
  "\<exists>cs. snd (SquareV2PaymentStrategy_execute env req h) = h @ cs \<and>
        (cs = [] \<or> (hd cs = SubmitOrder \<and> (tl cs \<noteq> [] \<longrightarrow> submitOrder env h = None)))"
  unfolding square_defs eff_defs
  by (auto split: option.splits sum.splits prod.splits if_splits)

text \<open>
  C1 (as amended). \<open>SquareV2PaymentStrategy.execute\<close> on a request without \<open>payment\<close>
  rejects with the argument-invalid error and has made no call. \<open>WepayPaymentStrategy.execute\<close>
  validates nothing itself: it asks the risk client for the risk token first, and the
  payload it hands to the inherited \<open>execute\<close> always has a \<open>payment\<close> member, whatever
  the request held.
\<close>

theorem execute_without_payment:
  "SquareV2PaymentStrategy_execute env (req\<lparr>payment := None\<rparr>) h =
     (Inl (PaymentArgumentInvalidError [''payment'']), h)
   \<and> WepayPaymentStrategy_execute wenv request k =
       (case getRiskToken wenv k of
          Inl e \<Rightarrow> (Inl e, k @ [GetRiskToken])
        | Inr token \<Rightarrow> super_execute wenv (merge_riskToken token request) (k @ [GetRiskToken]))
   \<and> card_payment (merge_riskToken token request) \<noteq> None"
  by (simp add: SquareV2PaymentStrategy_execute_def reject_def WepayPaymentStrategy_execute_def
      merge_riskToken_def Let_def)

text \<open>
  C1 as stated fails for \<open>WepayPaymentStrategy\<close>: on a request without \<open>payment\<close>, over
  an inherited \<open>execute\<close> that does reject a missing payment, the risk client is called
  and the order and a payment made of the risk token alone are submitted; nothing is
  rejected.
\<close>

theorem wepay_execute_without_payment_counterexample:
  "WepayPaymentStrategy_execute example_wepay_env
     \<lparr>card_payment = None, card_useStoreCredit = None\<rparr> [] =
   (Inr (),
    [GetRiskToken, CardSubmitOrder None,
     CardSubmitPayment
       \<lparr>card_methodId = None,
        card_paymentData =
          Some \<lparr>extraData = Some \<lparr>riskToken = Some ''risk-token'', extraData_others = []\<rparr>,
                paymentData_others = []\<rparr>\<rparr>])"
  by (simp add: WepayPaymentStrategy_execute_def example_wepay_env_def merge_riskToken_def
      CreditCardPaymentStrategy_execute_def)

text \<open>
  C7. When the payment data of the request is a vaulted instrument, \<open>execute\<close> never
  calls \<open>tokenize\<close>; every payment it submits is a \<open>bigpay_token\<close> payload holding the
  instrument id, for the method and gateway of the request, and when \<open>execute\<close>
  resolves, that submission was its last call. When the order submission resolved and
  the 3-D-Secure feature is on, the second call loads the payment method by its id
  with \<open>method\<close> and \<open>bigpayToken\<close> (the instrument id) as parameters; if the method
  loaded resolves no card id (none, or an empty one), \<open>execute\<close> rejects with the
  argument-invalid error for \<open>cardId\<close> after these two calls, and if it resolves one,
  the buyer is verified with it for the charge.
\<close>

theorem vaulted_instrument_bypasses_tokenization:
  assumes "payment req = Some pay" and "paymentData pay = Some pd"
    and "isVaultedInstrument env pd"
  shows "\<exists>cs. snd (SquareV2PaymentStrategy_execute env req h) = h @ cs
      \<and> Tokenize \<notin> set cs
      \<and> (\<forall>m g p. SubmitPayment m g p \<in> set cs \<longrightarrow>
            m = methodId pay \<and> g = gatewayId pay \<and>
            (\<exists>t s d. p = Bigpay_token (instrumentId pd) t s d))
      \<and> (fst (SquareV2PaymentStrategy_execute env req h) = Inr () \<longrightarrow>
            (\<exists>t s d. last cs = SubmitPayment (methodId pay) (gatewayId pay)
                                  (Bigpay_token (instrumentId pd) t s d)))
      \<and> (\<forall>features.
            submitOrder env h = None \<and>
            getStoreConfigOrThrow env (h @ [SubmitOrder]) = Inr features \<and>
            features add_3ds_support \<longrightarrow>
              take 2 cs = [SubmitOrder,
                           LoadPaymentMethod (methodId pay) (methodId pay) (instrumentId pd)]
            \<and> (\<forall>st pm.
                  loadPaymentMethod env (h @ [SubmitOrder]) (methodId pay) (methodId pay)
                    (instrumentId pd) = Inr st \<and>
                  st (methodId pay) = Inr pm \<longrightarrow>
                    (\<not> truthy_string (cardId_of pm) \<longrightarrow>
                       fst (SquareV2PaymentStrategy_execute env req h) =
                         Inl (PaymentArgumentInvalidError [''cardId'']) \<and>
                       length cs = 2)
                  \<and> (\<forall>c. cardId_of pm = Some c \<and> c \<noteq> [] \<longrightarrow>
                        take 1 (drop 2 cs) = [VerifyBuyer c CHARGE])))"
  using assms
  unfolding square_defs eff_defs truthy_string_def
  by (auto split: option.splits sum.splits prod.splits if_splits)

text \<open>
  The vaulted request in the store that resolves no card id: the order is submitted,
  the payment method is looked up, and \<open>execute\<close> rejects. In the store that resolves
  the card id: the buyer is verified with it and the \<open>bigpay_token\<close> payload is
  submitted with the verification token.
\<close>

theorem vaulted_instrument_bypasses_tokenization_witness:
  "payment vaulted_request = Some vaulted_payment
   \<and> paymentData vaulted_payment = Some vaulted_data
   \<and> isVaultedInstrument (example_square_env None) vaulted_data
   \<and> isVaultedInstrument (example_square_env (Some ''ccof:card-1'')) vaulted_data
   \<and> SquareV2PaymentStrategy_execute (example_square_env None) vaulted_request [] =
       (Inl (PaymentArgumentInvalidError [''cardId'']),
        [SubmitOrder, LoadPaymentMethod ''squarev2'' ''squarev2'' (Some ''instrument-1'')])
   \<and> SquareV2PaymentStrategy_execute (example_square_env (Some ''ccof:card-1''))
         vaulted_request [] =
       (Inr (),
        [SubmitOrder, LoadPaymentMethod ''squarev2'' ''squarev2'' (Some ''instrument-1''),
         VerifyBuyer ''ccof:card-1'' CHARGE,
         SubmitPayment ''squarev2'' None
           (Bigpay_token (Some ''instrument-1'') (Some ''verf:token'') False False)])"
  using vaulted_instrument_bypasses_tokenization
          [of vaulted_request vaulted_payment vaulted_data "example_square_env None" "[]"]
        vaulted_instrument_bypasses_tokenization
          [of vaulted_request vaulted_payment vaulted_data
              "example_square_env (Some ''ccof:card-1'')" "[]"]
  by (simp add: square_defs eff_defs example_defs)

text \<open>
  C8. Whatever \<open>execute\<close> is given: a call to \<open>tokenize\<close> or to \<open>verifyBuyer\<close> among the
  calls it makes is never the first one; the first one submits the order, and that
  submission had resolved.
\<close>

theorem order_submitted_before_vendor_calls:
  assumes "snd (SquareV2PaymentStrategy_execute env req h) = h @ cs"
    and "i < length cs"
    and "cs ! i = Tokenize \<or> (\<exists>t k. cs ! i = VerifyBuyer t k)"
  shows "0 < i \<and> cs ! 0 = SubmitOrder \<and> submitOrder env h = None"
proof -
  from execute_calls [of env req h] assms(1)
  have first: "cs = [] \<or> (hd cs = SubmitOrder \<and> (tl cs \<noteq> [] \<longrightarrow> submitOrder env h = None))"
    by auto
  from assms(2) have ne: "cs \<noteq> []" by auto
  with first have hd: "hd cs = SubmitOrder" and tl: "tl cs \<noteq> [] \<longrightarrow> submitOrder env h = None"
    by auto
  from ne hd have zero: "cs ! 0 = SubmitOrder" by (simp add: hd_conv_nth)
  with assms(3) have pos: "0 < i" by (cases i) auto
  with assms(2) ne have "tl cs \<noteq> []" by (cases cs) auto
  with tl zero pos show ?thesis by simp
qed

text \<open>
  A card request that asks to save the instrument, 3-D-Secure on: the order is
  submitted, then two nonces are made and both are verified; the second nonce
  (position 2) comes after the order.
\<close>

theorem order_submitted_before_vendor_calls_witness:
  "snd (SquareV2PaymentStrategy_execute (example_square_env None) card_request []) =
     [] @ [SubmitOrder, Tokenize, Tokenize, VerifyBuyer ''cnon:card-nonce'' CHARGE,
           VerifyBuyer ''cnon:card-nonce'' STORE,
           SubmitPayment ''squarev2'' None
             (Credit_card_token
                (Stringified [(''nonce'', ''cnon:card-nonce''),
                              (''store_card_nonce'', ''cnon:card-nonce''),
                              (''token'', ''verf:token''), (''store_card_token'', ''verf:token'')])
                True False)]
   \<and> submitOrder (example_square_env None) [] = None"
  using order_submitted_before_vendor_calls
          [of "example_square_env None" card_request "[]"
              "[SubmitOrder, Tokenize, Tokenize, VerifyBuyer ''cnon:card-nonce'' CHARGE,
                VerifyBuyer ''cnon:card-nonce'' STORE,
                SubmitPayment ''squarev2'' None
                  (Credit_card_token
                     (Stringified [(''nonce'', ''cnon:card-nonce''),
                                   (''store_card_nonce'', ''cnon:card-nonce''),
                                   (''token'', ''verf:token''),
                                   (''store_card_token'', ''verf:token'')])
                     True False)]" 2]
  by (simp add: square_defs eff_defs example_defs)

text \<open>
  C9. \<open>finalize\<close> rejects with the order-finalization-not-required error from every
  state and calls nothing: for \<open>SquareV2PaymentStrategy\<close> as its source has it, for
  \<open>WepayPaymentStrategy\<close> as it inherits it.
\<close>

theorem finalize_always_rejects:
  "SquareV2PaymentStrategy_finalize h = (Inl OrderFinalizationNotRequiredError, h)
   \<and> WepayPaymentStrategy_finalize k = (Inl OrderFinalizationNotRequiredError, k)"
  by (simp add: SquareV2PaymentStrategy_finalize_def WepayPaymentStrategy_finalize_def
      CreditCardPaymentStrategy_finalize_def reject_def)



chapter \<open>Properties of the embedded checkout\<close>

section \<open>What the steps leave unchanged\<close>

lemmas example_page_defs =
  example_runtime_def example_options_def example_browser_def cookie_allowed_def
  retry_armed_def from_store_def frame_loads_def content_missing_def never_loads_def
  example_listener_def example_checkout_def watched_checkout_def misplaced_checkout_def
  https_origin_def https_pathname_def
  percent_encode_def unreserved_def hex_digit_def
  new_EmbeddedCheckout_def new_LoadingIndicator_def add_if_def addListener_def
  CheckoutComplete_def CheckoutError_def CheckoutLoaded_def FrameError_def FrameLoaded_def
  SignedOut_def StyleConfigured_def

lemmas checkout_defs =
  attach_def attach_steps_def attach_recover_def attach_report_def attach_configure_def
  allowCookie_def retryAllowCookie_def attemptLogin_def createFrame_def toResizableFrame_def
  frame_listener_def removeChild_def update_frame_def on_message_def handleMessage_def
  trigger_def isIframeEvent_def property_key_def configureStyles_def post_def setTarget_def
  show_indicator_def hide_indicator_def listen_def stopListen_def getItem_def setItem_def
  removeItem_def withNamespace_def parseUrl_def is_absolute_def is_login_token_path_def
  emit_def then_do_def catch_do_def new_NotEmbeddableError_def new_InvalidArgumentError_def
  is_missing_content_def in_document_def truthy_string_def no_other_listeners_def detach_def
  Let_def

lemma same_controller_refl [simp]: "same_controller c c"
  by (simp add: same_controller_def)


lemma same_page_refl [simp]: "same_page w w"
  by (simp add: same_page_def)












section \<open>Storage keys\<close>

lemma key_neq [simp]:
  "withNamespace ns ''canRetryAllowCookie'' \<noteq> withNamespace ns ''isCookieAllowed''"
  "withNamespace ns ''isCookieAllowed'' \<noteq> withNamespace ns ''canRetryAllowCookie''"
  by (simp_all add: withNamespace_def)

text \<open>
  The key a malformed item is removed under (the namespace in front twice) is never
  the key of one of the two flags.
\<close>

lemma double_namespace [simp]:
  "withNamespace ns (withNamespace ns ''isCookieAllowed'') \<noteq> withNamespace ns ''canRetryAllowCookie''"
  "withNamespace ns (withNamespace ns ''isCookieAllowed'') \<noteq> withNamespace ns ''isCookieAllowed''"
  "withNamespace ns (withNamespace ns ''canRetryAllowCookie'') \<noteq> withNamespace ns ''canRetryAllowCookie''"
  "withNamespace ns (withNamespace ns ''canRetryAllowCookie'') \<noteq> withNamespace ns ''isCookieAllowed''"
proof -
  have dot: "ns @ CHR ''.'' # k = k' \<Longrightarrow> length ns < length k' \<and> k' ! length ns = CHR ''.''"
    for k k' :: string
    by auto
  show "withNamespace ns (withNamespace ns ''isCookieAllowed'') \<noteq>
        withNamespace ns ''canRetryAllowCookie''"
  proof
    assume "withNamespace ns (withNamespace ns ''isCookieAllowed'') =
            withNamespace ns ''canRetryAllowCookie''"
    then have eq: "ns @ CHR ''.'' # ''isCookieAllowed'' = ''canRetryAllowCookie''"
      by (simp add: withNamespace_def)
    from arg_cong[OF eq, of length] have "length ns = 3" by simp
    with dot[OF eq] show False by simp
  qed
  show "withNamespace ns (withNamespace ns ''isCookieAllowed'') \<noteq> withNamespace ns ''isCookieAllowed''"
    by (auto simp: withNamespace_def dest: arg_cong[where f=length])
  show "withNamespace ns (withNamespace ns ''canRetryAllowCookie'') \<noteq>
        withNamespace ns ''canRetryAllowCookie''"
    by (auto simp: withNamespace_def dest: arg_cong[where f=length])
  show "withNamespace ns (withNamespace ns ''canRetryAllowCookie'') \<noteq>
        withNamespace ns ''isCookieAllowed''"
    by (auto simp: withNamespace_def dest: arg_cong[where f=length])
qed


section \<open>Waiting for the iframe\<close>







section \<open>The steps of attach and detach\<close>








section \<open>At most one live frame handle\<close>








section \<open>The cookie-consent check\<close>

text \<open>
  C2 (as amended). For a controller whose checkout URL is absolute (\<open>embedCheckout\<close>
  throws before it builds a controller for any other): if the \<open>isCookieAllowed\<close> item
  is missing or falsy, \<open>_allowCookie\<close> removes the \<open>canRetryAllowCookie\<close> item, sets
  \<open>isCookieAllowed\<close>, hides the body, navigates the page to the allow-cookie endpoint
  of the checkout origin with the encoded address of the page as return URL, and
  returns a promise that never settles; if \<open>isCookieAllowed\<close> is truthy, it sets
  \<open>canRetryAllowCookie\<close> and resolves, navigating nowhere and leaving the page as it is.
\<close>

theorem allowCookie_flags:
  "(\<not> truthy (fst (getItem (storage c) ''isCookieAllowed'' w)) \<and> is_absolute (url (options c)) \<longrightarrow>
      (case allowCookie rt (c, w) of
         (out, c', w') \<Rightarrow>
           out = Pending \<and> c' = c \<and>
           localStorage w' (withNamespace (storage c) ''canRetryAllowCookie'') = None \<and>
           localStorage w' (withNamespace (storage c) ''isCookieAllowed'') =
             Some (Parses (JBool True)) \<and>
           body_visibility w' = ''hidden'' \<and>
           effects w' = effects w @
             [LocationReplace
                (origin_of rt (url (options c)) @ ''/embedded-checkout/allow-cookie?returnUrl='' @
                 encodeURIComponent rt (location_href w))] \<and>
           frames w' = frames w))
   \<and> (truthy (fst (getItem (storage c) ''isCookieAllowed'' w)) \<longrightarrow>
      (case allowCookie rt (c, w) of
         (out, c', w') \<Rightarrow>
           out = Resolved () \<and> c' = c \<and>
           localStorage w' (withNamespace (storage c) ''canRetryAllowCookie'') =
             Some (Parses (JBool True)) \<and>
           localStorage w' (withNamespace (storage c) ''isCookieAllowed'') =
             localStorage w (withNamespace (storage c) ''isCookieAllowed'') \<and>
           body_visibility w' = body_visibility w \<and>
           effects w' = effects w \<and> frames w' = frames w \<and>
           location_href w' = location_href w))"
  by (auto simp: allowCookie_def getItem_def setItem_def removeItem_def parseUrl_def emit_def
      Let_def split: option.splits stored.splits)

text \<open>
  On the example page, without the allowed flag: the navigation; with it: the retry
  flag set and nothing else.
\<close>

theorem allowCookie_flags_witness:
  "\<not> truthy (fst (getItem (storage example_checkout) ''isCookieAllowed''
                   (example_browser retry_armed)))
   \<and> is_absolute (url (options example_checkout))
   \<and> fst (allowCookie example_runtime (example_checkout, example_browser retry_armed)) = Pending
   \<and> effects (snd (snd (allowCookie example_runtime
                           (example_checkout, example_browser retry_armed)))) =
       [LocationReplace
          ''https://store.example/embedded-checkout/allow-cookie?returnUrl=https%3A%2F%2Fhost.example%2Fcart'']
   \<and> truthy (fst (getItem (storage example_checkout) ''isCookieAllowed''
                   (example_browser cookie_allowed)))
   \<and> fst (allowCookie example_runtime (example_checkout, example_browser cookie_allowed)) =
       Resolved ()
   \<and> localStorage (snd (snd (allowCookie example_runtime
                               (example_checkout, example_browser cookie_allowed))))
        ''BigCommerce.EmbeddedCheckout.canRetryAllowCookie'' = Some (Parses (JBool True))
   \<and> effects (snd (snd (allowCookie example_runtime
                           (example_checkout, example_browser cookie_allowed)))) = []"
  using allowCookie_flags[of example_checkout "example_browser retry_armed" example_runtime]
        allowCookie_flags[of example_checkout "example_browser cookie_allowed" example_runtime]
  by (simp add: checkout_defs example_page_defs)

text \<open>
  C2 as stated fails in its first half: with \<open>isCookieAllowed\<close> unset and the retry
  flag set from before, \<open>_allowCookie\<close> leaves the retry flag removed, not armed.
\<close>

theorem allowCookie_disarms_counterexample:
  "localStorage (example_browser retry_armed)
     ''BigCommerce.EmbeddedCheckout.canRetryAllowCookie'' = Some (Parses (JBool True))
   \<and> localStorage (example_browser retry_armed)
       ''BigCommerce.EmbeddedCheckout.isCookieAllowed'' = None
   \<and> localStorage (snd (snd (allowCookie example_runtime
                               (example_checkout, example_browser retry_armed))))
       ''BigCommerce.EmbeddedCheckout.canRetryAllowCookie'' = None
   \<and> fst (getItem ''BigCommerce.EmbeddedCheckout'' ''canRetryAllowCookie''
            (snd (snd (allowCookie example_runtime
                         (example_checkout, example_browser retry_armed))))) = JNull"
  by (simp add: checkout_defs example_page_defs)

section \<open>Failure of attach\<close>




section \<open>Attaching twice\<close>



section \<open>Creating the iframe\<close>



section \<open>Message dispatch\<close>

text \<open>
  C6. \<open>_handleMessage\<close> calls no listener for a message whose origin is not the source
  origin, and none for a message whose \<open>type\<close> is missing or is not a message type of
  the enumeration, the listeners being registered under message types of the
  enumeration only (as they are in the controller its constructor builds). A message of
  the source origin is handed to the functions registered under its type, each called
  with the data of the message, in the order of the list; \<open>addListener\<close> puts a function
  at the end of the list of its type, so that order is the order of registration.
\<close>

theorem message_dispatch:
  "(origin ev \<noteq> sourceOrigin l \<longrightarrow> handleMessage l ev = [])
   \<and> (recognized_only l \<and> property_key (type (data ev)) \<notin> set EmbeddedCheckoutEventType \<longrightarrow>
        handleMessage l ev = [])
   \<and> (origin ev = sourceOrigin l \<longrightarrow>
        handleMessage l ev =
          map (\<lambda>f. (f, data ev))
            (case map_of (listeners l) (property_key (type (data ev))) of
               None \<Rightarrow> [] | Some fs \<Rightarrow> fs))
   \<and> map_of (listeners (addListener t f l)) t =
        Some ((case map_of (listeners l) t of None \<Rightarrow> [] | Some fs \<Rightarrow> fs) @ [f])
   \<and> (recognized_only l \<longrightarrow>
        recognized_only (messageListener (new_EmbeddedCheckout timeout l p li namespace opts)))"
proof -
  have ro: "recognized_only m = (fst ` set (listeners m) \<subseteq> set EmbeddedCheckoutEventType)"
    for m :: "listener IframeEventListener"
    by (auto simp: recognized_only_def list_all_iff)
  have ro': "recognized_only l = (fst ` set (listeners l) \<subseteq> set EmbeddedCheckoutEventType)"
    by (auto simp: recognized_only_def list_all_iff)
  have add: "recognized_only m \<Longrightarrow> k \<in> set EmbeddedCheckoutEventType \<Longrightarrow>
             recognized_only (addListener k g m)" for m :: "listener IframeEventListener" and k g
    by (simp add: ro addListener_def dom_update)
  have addif: "recognized_only m \<Longrightarrow> k \<in> set EmbeddedCheckoutEventType \<Longrightarrow>
             recognized_only (add_if g k m)" for m k g
    by (cases g) (simp_all add: add_if_def add)
  have mem: "CheckoutComplete \<in> set EmbeddedCheckoutEventType"
    "CheckoutError \<in> set EmbeddedCheckoutEventType"
    "CheckoutLoaded \<in> set EmbeddedCheckoutEventType"
    "FrameLoaded \<in> set EmbeddedCheckoutEventType"
    "SignedOut \<in> set EmbeddedCheckoutEventType"
    by (simp_all add: EmbeddedCheckoutEventType_def)
  have ctor: "recognized_only l \<Longrightarrow>
        recognized_only (messageListener (new_EmbeddedCheckout timeout l p li namespace opts))"
    by (simp add: new_EmbeddedCheckout_def add addif mem)
  show ?thesis
    using ctor
    by (auto simp: handleMessage_def trigger_def isIframeEvent_def ro'
        addListener_def update_conv' split: option.splits dest!: map_of_SomeD)
qed

text \<open>
  The listener of the example checkout: a frame-loaded message of the store reaches
  the function of the host page and then the controller's own closure, in the order
  the constructor registered them; the same message from elsewhere, a message of the
  store with an unknown type and one without a type reach nobody.
\<close>

theorem message_dispatch_witness:
  "recognized_only example_listener
   \<and> recognized_only (messageListener example_checkout)
   \<and> handleMessage (messageListener example_checkout) (from_store FrameLoaded None) =
       [(HostFunction ''onFrameLoad'', \<lparr>type = Some ''FRAME_LOADED'', payload = None\<rparr>),
        (ConfigureStyles, \<lparr>type = Some ''FRAME_LOADED'', payload = None\<rparr>)]
   \<and> handleMessage (messageListener example_checkout)
        \<lparr>origin = ''https://elsewhere.example'',
         data = \<lparr>type = Some FrameLoaded, payload = None\<rparr>\<rparr> = []
   \<and> handleMessage (messageListener example_checkout) (from_store ''UNKNOWN'' None) = []
   \<and> handleMessage (messageListener example_checkout)
        \<lparr>origin = ''https://store.example'', data = \<lparr>type = None, payload = None\<rparr>\<rparr> = []"
  using message_dispatch
          [of "\<lparr>origin = ''https://elsewhere.example'',
                data = \<lparr>type = Some FrameLoaded, payload = None\<rparr>\<rparr>"
              "messageListener example_checkout" FrameLoaded ConfigureStyles None
              "\<lparr>targetOrigin = ''https://store.example'', targetWindow = None\<rparr>"
              new_LoadingIndicator "''BigCommerce.EmbeddedCheckout''" example_options]
        message_dispatch
          [of "from_store ''UNKNOWN'' None" example_listener FrameLoaded ConfigureStyles None
              "\<lparr>targetOrigin = ''https://store.example'', targetWindow = None\<rparr>"
              new_LoadingIndicator "''BigCommerce.EmbeddedCheckout''" example_options]
  by (simp add: checkout_defs example_page_defs recognized_only_def
      EmbeddedCheckoutEventType_def)

section \<open>Detaching\<close>

text \<open>
  C10. On a controller that is not attached, \<open>detach()\<close> throws nothing and leaves
  the controller and the page as they are. On a controller that is attached,
  \<open>detach()\<close> leaves it detached and no longer listening; and when its iframe is in the
  document with its resizer, as it is after \<open>attach()\<close> has resolved, \<open>detach()\<close> throws
  nothing, the iframe is no longer in the document, its resizer is closed, and no
  other iframe is touched.
\<close>

theorem detach_effects:
  "(\<not> isAttached c \<longrightarrow> detach (c, w) = (None, c, w))
   \<and> (isAttached c \<longrightarrow>
        \<not> isAttached (fst (snd (detach (c, w)))) \<and>
        \<not> isListening (messageListener (fst (snd (detach (c, w))))))
   \<and> (isAttached c \<and> iframe c = Some i \<and> i < length (frames w) \<and> in_document w i \<and>
      iFrameResizer (frames w ! i) = Some r \<longrightarrow>
        (case detach (c, w) of
           (thrown, c', w') \<Rightarrow>
             thrown = None \<and> \<not> in_document w' i \<and>
             iFrameResizer (frames w' ! i) = Some (r\<lparr>closed := True\<rparr>) \<and>
             \<not> frame_handle_live w' i \<and>
             length (frames w') = length (frames w) \<and>
             (\<forall>j. j \<noteq> i \<longrightarrow> frames w' ! j = frames w ! j) \<and>
             effects w' = effects w \<and> localStorage w' = localStorage w))"
  by (auto simp: detach_def frame_handle_live_def in_document_def update_frame_def
      stopListen_def Let_def split: option.splits)

text \<open>
  The example checkout before it was ever attached: \<open>detach()\<close> does nothing. After it
  was attached: its iframe is taken out of the document and the resizer is closed.
\<close>

theorem detach_effects_witness:
  "\<not> isAttached example_checkout
   \<and> detach (example_checkout, example_browser cookie_allowed) =
       (None, example_checkout, example_browser cookie_allowed)
   \<and> isAttached (fst attached_page) \<and> iframe (fst attached_page) = Some 0
   \<and> isListening (messageListener (fst attached_page))
   \<and> in_document (snd attached_page) 0
   \<and> fst (detach attached_page) = None
   \<and> \<not> isAttached (fst (snd (detach attached_page)))
   \<and> \<not> isListening (messageListener (fst (snd (detach attached_page))))
   \<and> frames (snd (snd (detach attached_page))) =
       [\<lparr>src = ''https://store.example/embedded-checkout'', display = [], parentNode = None,
         iFrameResizer =
           Some \<lparr>scrolling = False, sizeWidth = False,
                 heightCalculationMethod = ''lowestElement'', closed = True\<rparr>\<rparr>]"
  using detach_effects
          [of example_checkout "example_browser cookie_allowed" 0
              "\<lparr>scrolling = False, sizeWidth = False,
                heightCalculationMethod = ''lowestElement'', closed = False\<rparr>"]
        detach_effects
          [of "fst attached_page" "snd attached_page" 0
              "\<lparr>scrolling = False, sizeWidth = False,
                heightCalculationMethod = ''lowestElement'', closed = False\<rparr>"]
  by (simp add: attached_page_def checkout_defs example_page_defs)

end
